theory Spec2Isabelle
  imports Complex_Main
begin

section \<open>Snake Classic: the game page and its AI route\<close>

text \<open>
  The page component (\<^verbatim>\<open>src/Games/src/app/page.tsx\<close>) keeps its state in React hooks; the
  model collects the hooks the game logic reads or writes in one record and turns every
  handler into a function from the state to the new state. JavaScript numbers that hold
  integers (coordinates, score, speed) are \<open>int\<close>; \<^verbatim>\<open>Math.random()\<close> is a sequence of draws
  \<open>rnd 0, rnd 1, ...\<close> together with the index of the next unused draw, which every function
  that draws returns updated. A draw is a real number; that it lies in the unit interval,
  1 excluded, is the contract of \<^verbatim>\<open>Math.random()\<close> and a hypothesis wherever it is needed.
\<close>

subsection \<open>Game constants\<close>

definition GRID_SIZE :: int where
  "GRID_SIZE = 20"

definition INITIAL_SPEED :: int where
  "INITIAL_SPEED = 150"

definition SPEED_INCREMENT :: int where
  "SPEED_INCREMENT = 5"

definition MIN_SPEED :: int where
  "MIN_SPEED = 50"

subsection \<open>Data model\<close>

datatype Direction = UP | DOWN | LEFT | RIGHT

datatype GameState = menu | playing | paused | gameover

record Position =
  x :: int
  y :: int

text \<open>The body of the feedback request that \<^verbatim>\<open>triggerGameOver\<close> posts to \<^verbatim>\<open>/api/ai-snake\<close>.\<close>

record FeedbackRequest =
  req_score :: int
  req_highScore :: int
  req_length :: int

text \<open>
  The hooks of \<^verbatim>\<open>SnakeGame\<close>. \<open>snake_highScore\<close> and \<open>snake_speed\<close> are the two
  \<^verbatim>\<open>localStorage\<close> entries of those names: \<open>None\<close> is an absent key, \<open>Some v\<close> an entry
  holding the decimal text of \<open>v\<close> (what \<^verbatim>\<open>toString()\<close> stores and \<^verbatim>\<open>parseInt\<close> reads back).
  \<open>fetches\<close> records the feedback requests sent so far.
\<close>

record Game =
  gameState :: GameState
  snake :: "Position list"
  food :: Position
  direction :: Direction
  nextDirection :: Direction
  score :: int
  highScore :: int
  speed :: int
  aiTip :: string
  aiFeedback :: string
  isLoadingAi :: bool
  touchStartRef :: "(real \<times> real) option"
  scoreRef :: int
  snake_highScore :: "int option"
  snake_speed :: "int option"
  fetches :: "FeedbackRequest list"

type_synonym rng = "nat \<Rightarrow> real"

text \<open>The \<^verbatim>\<open>useState\<close> initialisers, from the two stored preferences.\<close>

definition initialGame :: "int option \<Rightarrow> int option \<Rightarrow> Game" where
  "initialGame savedHighScore savedSpeed =
     \<lparr>gameState = menu,
      snake = [\<lparr>x = 10, y = 10\<rparr>],
      food = \<lparr>x = 15, y = 10\<rparr>,
      direction = RIGHT,
      nextDirection = RIGHT,
      score = 0,
      highScore = (case savedHighScore of Some saved \<Rightarrow> saved | None \<Rightarrow> 0),
      speed = (case savedSpeed of Some saved \<Rightarrow> saved | None \<Rightarrow> INITIAL_SPEED),
      aiTip = [],
      aiFeedback = [],
      isLoadingAi = False,
      touchStartRef = None,
      scoreRef = 0,
      snake_highScore = savedHighScore,
      snake_speed = savedSpeed,
      fetches = []\<rparr>"

text \<open>
  The two effects that run after a render: \<^verbatim>\<open>scoreRef.current = score\<close> and
  \<^verbatim>\<open>localStorage.setItem('snake_speed', speed.toString())\<close>.
\<close>

definition afterRender :: "Game \<Rightarrow> Game" where
  "afterRender g = g\<lparr>scoreRef := score g, snake_speed := Some (speed g)\<rparr>"

subsection \<open>Food placement\<close>

text \<open>\<^verbatim>\<open>currentSnake.some(segment => segment.x === p.x && segment.y === p.y)\<close>\<close>

definition occupies :: "Position list \<Rightarrow> Position \<Rightarrow> bool" where
  "occupies currentSnake p = list_ex (\<lambda>segment. x segment = x p \<and> y segment = y p) currentSnake"

text \<open>
  \<^verbatim>\<open>generateFood\<close>: a do-while loop that draws a cell and repeats while the cell is on the
  snake. Each round uses two draws. A run that never leaves the loop is the value \<open>None\<close>.
  The product of a draw with \<open>GRID_SIZE\<close> is taken exactly; the rounded product of a double
  below 1 with 20 is below 20 as well, so both give a coordinate from 0 to 19.
\<close>

partial_function (option) generateFood :: "rng \<Rightarrow> nat \<Rightarrow> Position list \<Rightarrow> (Position \<times> nat) option" where
  "generateFood rnd n currentSnake =
     (let newFood = \<lparr>x = \<lfloor>rnd n * of_int GRID_SIZE\<rfloor>, y = \<lfloor>rnd (n + 1) * of_int GRID_SIZE\<rfloor>\<rparr>
      in if occupies currentSnake newFood then generateFood rnd (n + 2) currentSnake
         else Some (newFood, n + 2))"

declare generateFood.simps [code]

text \<open>The cell that round \<open>k\<close> of the loop draws, when the loop starts at draw \<open>n\<close>.\<close>

definition sample :: "rng \<Rightarrow> nat \<Rightarrow> nat \<Rightarrow> Position" where
  "sample rnd n k =
     \<lparr>x = \<lfloor>rnd (n + 2 * k) * of_int GRID_SIZE\<rfloor>, y = \<lfloor>rnd (n + 2 * k + 1) * of_int GRID_SIZE\<rfloor>\<rparr>"

definition inGrid :: "Position \<Rightarrow> bool" where
  "inGrid p = (0 \<le> x p \<and> x p < GRID_SIZE \<and> 0 \<le> y p \<and> y p < GRID_SIZE)"

subsection \<open>Game over and start\<close>

definition triggerGameOver :: "int \<Rightarrow> int \<Rightarrow> Game \<Rightarrow> Game" where
  "triggerGameOver snakeLength finalScore g =
     g\<lparr>gameState := gameover,
       highScore := (if finalScore > highScore g then finalScore else highScore g),
       snake_highScore := (if finalScore > highScore g then Some finalScore else snake_highScore g),
       isLoadingAi := True,
       fetches := fetches g @
         [\<lparr>req_score = finalScore, req_highScore = highScore g, req_length = snakeLength\<rparr>]\<rparr>"

definition startGame :: "rng \<Rightarrow> nat \<Rightarrow> Game \<Rightarrow> (Game \<times> nat) option" where
  "startGame rnd n g =
     (let initialSnake = [\<lparr>x = 10, y = 10\<rparr>]
      in case generateFood rnd n initialSnake of
           None \<Rightarrow> None
         | Some (newFood, n') \<Rightarrow>
             Some (g\<lparr>snake := initialSnake,
                     food := newFood,
                     direction := RIGHT,
                     nextDirection := RIGHT,
                     score := 0,
                     speed := (case snake_speed g of Some savedSpeed \<Rightarrow> savedSpeed | None \<Rightarrow> INITIAL_SPEED),
                     aiTip := [],
                     aiFeedback := [],
                     gameState := playing\<rparr>, n'))"

subsection \<open>The game loop\<close>

definition moveHead :: "Direction \<Rightarrow> Position \<Rightarrow> Position" where
  "moveHead currentDirection head =
     (case currentDirection of
        UP \<Rightarrow> head\<lparr>y := y head - 1\<rparr>
      | DOWN \<Rightarrow> head\<lparr>y := y head + 1\<rparr>
      | LEFT \<Rightarrow> head\<lparr>x := x head - 1\<rparr>
      | RIGHT \<Rightarrow> head\<lparr>x := x head + 1\<rparr>)"

definition hitsWall :: "Position \<Rightarrow> bool" where
  "hitsWall head = (x head < 0 \<or> x head \<ge> GRID_SIZE \<or> y head < 0 \<or> y head \<ge> GRID_SIZE)"

text \<open>
  The \<^verbatim>\<open>setInterval\<close> callback. On an empty snake \<^verbatim>\<open>currentSnake[0]\<close> is undefined, the
  copied head has no coordinates, every comparison with them is false, and the callback
  pushes the head and pops it again: the snake stays empty and the game goes on.
\<close>

definition tick :: "rng \<Rightarrow> nat \<Rightarrow> Game \<Rightarrow> (Game \<times> nat) option" where
  "tick rnd n g =
     (let currentSnake = snake g;
          currentDirection = nextDirection g;
          g1 = g\<lparr>direction := currentDirection\<rparr>
      in case currentSnake of
           [] \<Rightarrow> Some (g1\<lparr>snake := []\<rparr>, n)
         | segment0 # _ \<Rightarrow>
             (let head = moveHead currentDirection segment0
              in if hitsWall head then
                   Some (triggerGameOver (int (length currentSnake)) (scoreRef g) g1, n)
                 else if occupies currentSnake head then
                   Some (triggerGameOver (int (length currentSnake)) (scoreRef g) g1, n)
                 else
                   (let newSnake = head # currentSnake
                    in if x head = x (food g) \<and> y head = y (food g) then
                         (case generateFood rnd n newSnake of
                            None \<Rightarrow> None
                          | Some (newFood, n') \<Rightarrow>
                              Some (g1\<lparr>snake := newSnake,
                                       score := score g + 10,
                                       food := newFood,
                                       speed := max MIN_SPEED (speed g - SPEED_INCREMENT)\<rparr>, n'))
                       else Some (g1\<lparr>snake := butlast newSnake\<rparr>, n))))"

text \<open>
  The two flags of the step contract, read off the branches of the callback: \<open>collided\<close>
  is the wall test or the self test succeeding, \<open>ateFood\<close> is the food test succeeding
  after both failed.
\<close>

definition collided :: "Game \<Rightarrow> bool" where
  "collided g =
     (case snake g of
        [] \<Rightarrow> False
      | segment0 # _ \<Rightarrow>
          (let head = moveHead (nextDirection g) segment0
           in hitsWall head \<or> occupies (snake g) head))"

definition ateFood :: "Game \<Rightarrow> bool" where
  "ateFood g =
     (case snake g of
        [] \<Rightarrow> False
      | segment0 # _ \<Rightarrow>
          (let head = moveHead (nextDirection g) segment0
           in \<not> hitsWall head \<and> \<not> occupies (snake g) head \<and>
              x head = x (food g) \<and> y head = y (food g)))"

subsection \<open>Input adapters\<close>

definition opposites :: "Direction \<Rightarrow> Direction" where
  "opposites d = (case d of UP \<Rightarrow> DOWN | DOWN \<Rightarrow> UP | LEFT \<Rightarrow> RIGHT | RIGHT \<Rightarrow> LEFT)"

definition handleKeyDown :: "rng \<Rightarrow> nat \<Rightarrow> string \<Rightarrow> Game \<Rightarrow> (Game \<times> nat) option" where
  "handleKeyDown rnd n key g =
     (if gameState g = playing then
        (if key = ''ArrowUp'' \<or> key = ''w'' \<or> key = ''W'' then
           Some (if direction g \<noteq> DOWN then g\<lparr>nextDirection := UP\<rparr> else g, n)
         else if key = ''ArrowDown'' \<or> key = ''s'' \<or> key = ''S'' then
           Some (if direction g \<noteq> UP then g\<lparr>nextDirection := DOWN\<rparr> else g, n)
         else if key = ''ArrowLeft'' \<or> key = ''a'' \<or> key = ''A'' then
           Some (if direction g \<noteq> RIGHT then g\<lparr>nextDirection := LEFT\<rparr> else g, n)
         else if key = ''ArrowRight'' \<or> key = ''d'' \<or> key = ''D'' then
           Some (if direction g \<noteq> LEFT then g\<lparr>nextDirection := RIGHT\<rparr> else g, n)
         else if key = ''Escape'' \<or> key = ''p'' \<or> key = ''P'' then
           Some (g\<lparr>gameState := paused\<rparr>, n)
         else Some (g, n))
      else if gameState g = paused then
        (if key = ''Escape'' \<or> key = ''p'' \<or> key = ''P'' then Some (g\<lparr>gameState := playing\<rparr>, n)
         else Some (g, n))
      else if gameState g = menu \<or> gameState g = gameover then
        (if key = ''Enter'' \<or> key = '' '' then startGame rnd n g else Some (g, n))
      else Some (g, n))"

definition handleTouchStart :: "real \<times> real \<Rightarrow> Game \<Rightarrow> Game" where
  "handleTouchStart touch g = g\<lparr>touchStartRef := Some touch\<rparr>"

definition handleTouchEnd :: "real \<times> real \<Rightarrow> Game \<Rightarrow> Game" where
  "handleTouchEnd touch g =
     (case touchStartRef g of
        None \<Rightarrow> g
      | Some start \<Rightarrow>
          (let deltaX = fst touch - fst start;
               deltaY = snd touch - snd start;
               minSwipe = 30;
               g1 =
                 (if \<bar>deltaX\<bar> > \<bar>deltaY\<bar> then
                    (if deltaX > minSwipe \<and> direction g \<noteq> LEFT then g\<lparr>nextDirection := RIGHT\<rparr>
                     else if deltaX < - minSwipe \<and> direction g \<noteq> RIGHT then g\<lparr>nextDirection := LEFT\<rparr>
                     else g)
                  else
                    (if deltaY > minSwipe \<and> direction g \<noteq> UP then g\<lparr>nextDirection := DOWN\<rparr>
                     else if deltaY < - minSwipe \<and> direction g \<noteq> DOWN then g\<lparr>nextDirection := UP\<rparr>
                     else g))
           in g1\<lparr>touchStartRef := None\<rparr>))"

definition handleDirectionButton :: "Direction \<Rightarrow> Game \<Rightarrow> Game" where
  "handleDirectionButton newDirection g =
     (if gameState g \<noteq> playing then g
      else if direction g \<noteq> opposites newDirection then g\<lparr>nextDirection := newDirection\<rparr>
      else g)"

text \<open>
  What each adapter takes as a request for a direction: the keys of the four \<^verbatim>\<open>case\<close>
  groups, and a swipe longer than \<^verbatim>\<open>minSwipe\<close> along its dominant axis (the vertical axis
  when the two deltas are equally long).
\<close>

definition directionKeys :: "Direction \<Rightarrow> string list" where
  "directionKeys d =
     (case d of
        UP \<Rightarrow> [''ArrowUp'', ''w'', ''W'']
      | DOWN \<Rightarrow> [''ArrowDown'', ''s'', ''S'']
      | LEFT \<Rightarrow> [''ArrowLeft'', ''a'', ''A'']
      | RIGHT \<Rightarrow> [''ArrowRight'', ''d'', ''D''])"

definition swipeRequest :: "real \<Rightarrow> real \<Rightarrow> Direction option" where
  "swipeRequest deltaX deltaY =
     (if \<bar>deltaX\<bar> > \<bar>deltaY\<bar> then
        (if deltaX > 30 then Some RIGHT else if deltaX < - 30 then Some LEFT else None)
      else
        (if deltaY > 30 then Some DOWN else if deltaY < - 30 then Some UP else None))"

text \<open>The filter the adapters are meant to apply to a requested direction.\<close>

definition acceptDirection :: "Direction \<Rightarrow> Game \<Rightarrow> Direction" where
  "acceptDirection d g = (if d = opposites (direction g) then nextDirection g else d)"

subsection \<open>The AI route\<close>

text \<open>
  \<^verbatim>\<open>POST\<close> of \<^verbatim>\<open>/api/ai-snake\<close>. The request body is the JSON the client sent; the SDK client
  and the chat completion are outside the repository and are given by the environment:
  whether \<^verbatim>\<open>request.json()\<close> and \<^verbatim>\<open>ZAI.create()\<close> resolve, what the completion call
  answers to a prompt and a token budget, and the draw \<^verbatim>\<open>getFallbackResponse\<close> makes. The
  text of a prompt plays no part in the control flow, so a prompt is kept as its kind and
  the values interpolated into it.
\<close>

datatype jsvalue = JUndefined | JNull | JBool bool | JNumber real | JString string | JObject

record FeedbackData =
  data_score :: jsvalue
  data_highScore :: jsvalue
  data_length :: jsvalue

record RequestBody =
  body_type :: jsvalue
  body_data :: "FeedbackData option"

datatype Prompt = TipPrompt | FeedbackPrompt jsvalue jsvalue jsvalue | ThemePrompt

text \<open>
  A completion call either rejects or resolves; a resolved one may lack
  \<^verbatim>\<open>choices[0]?.message?.content\<close>.
\<close>

datatype Completion = Rejected | Resolved "string option"

record AiEnv =
  requestJson :: "RequestBody option"
  zaiCreate :: bool
  completion :: "Prompt \<Rightarrow> nat \<Rightarrow> Completion"
  fallbackDraw :: real

record Response =
  status :: nat
  success :: "bool option"
  content :: "string option"
  error :: "string option"
  fallback :: "string option"
  response_type :: "jsvalue option"

text \<open>\<^verbatim>\<open>String.prototype.trim\<close> on the ASCII white space and line terminators.\<close>

definition isWhiteSpace :: "char \<Rightarrow> bool" where
  "isWhiteSpace c = (c \<in> {CHR '' '', CHR 0x09, CHR 0x0A, CHR 0x0B, CHR 0x0C, CHR 0x0D})"

definition trim :: "string \<Rightarrow> string" where
  "trim s = rev (dropWhile isWhiteSpace (rev (dropWhile isWhiteSpace s)))"

definition tips :: "string list" where
  "tips =
     [''Keep your snake near the center to give yourself more reaction time!'',
      ''Try to create a pattern - it helps avoid trapping yourself!'',
      ''Move deliberately - speed isn't always your friend in tight spots!'',
      ''Watch where your tail is heading and plan your path accordingly!'',
      ''Corner yourself less by circling in wide patterns!'']"

definition getFallbackResponse :: "real \<Rightarrow> string option" where
  "getFallbackResponse r =
     (let i = \<lfloor>r * of_nat (length tips)\<rfloor>
      in if 0 \<le> i \<and> i < int (length tips) then Some (tips ! nat i) else None)"

text \<open>The \<^verbatim>\<open>catch\<close> branch.\<close>

definition errorResponse :: "AiEnv \<Rightarrow> Response" where
  "errorResponse env =
     \<lparr>status = 500, success = Some False, content = None,
      error = Some ''Failed to get AI response'',
      fallback = getFallbackResponse (fallbackDraw env), response_type = None\<rparr>"

text \<open>The code after the \<^verbatim>\<open>switch\<close>: the completion call and the success response.\<close>

definition respond :: "AiEnv \<Rightarrow> jsvalue \<Rightarrow> Prompt \<Rightarrow> nat \<Rightarrow> Response" where
  "respond env type prompt maxTokens =
     (case completion env prompt maxTokens of
        Rejected \<Rightarrow> errorResponse env
      | Resolved c \<Rightarrow>
          \<lparr>status = 200, success = Some True,
           content = Some (trim (case c of Some text \<Rightarrow> text | None \<Rightarrow> [])),
           error = None, fallback = None, response_type = Some type\<rparr>)"

definition POST :: "AiEnv \<Rightarrow> Response" where
  "POST env =
     (case requestJson env of
        None \<Rightarrow> errorResponse env
      | Some body \<Rightarrow>
          if \<not> zaiCreate env then errorResponse env
          else
            (let type = body_type body
             in if type = JString ''tip'' then respond env type TipPrompt 80
                else if type = JString ''feedback'' then
                  (case body_data body of
                     None \<Rightarrow> respond env type (FeedbackPrompt JUndefined JUndefined JUndefined) 100
                   | Some d \<Rightarrow>
                       respond env type
                         (FeedbackPrompt (data_score d) (data_highScore d) (data_length d)) 100)
                else if type = JString ''theme'' then respond env type ThemePrompt 20
                else
                  \<lparr>status = 400, success = None, content = None,
                   error = Some ''Invalid request type'', fallback = None,
                   response_type = None\<rparr>))"

definition isClientError :: "Response \<Rightarrow> bool" where
  "isClientError r = (400 \<le> status r \<and> status r < 500)"

subsection \<open>Example states and environments\<close>

text \<open>Draws that place the first food at (11,10) and the second at (5,5).\<close>

definition rndC :: rng where
  "rndC i = (if i = 0 then 11 / 20 else if i = 1 then 1 / 2 else 1 / 4)"

text \<open>A one-segment snake at (10,10) heading right, with the food in the next cell.\<close>

definition playingExample :: Game where
  "playingExample = (initialGame None None)\<lparr>gameState := playing, food := \<lparr>x = 11, y = 10\<rparr>\<rparr>"

text \<open>A four-segment snake whose head at (10,10), moving right, enters the cell of its tail.\<close>

definition loopExample :: Game where
  "loopExample =
     (initialGame None None)
       \<lparr>gameState := playing,
        snake := [\<lparr>x = 10, y = 10\<rparr>, \<lparr>x = 10, y = 11\<rparr>, \<lparr>x = 11, y = 11\<rparr>, \<lparr>x = 11, y = 10\<rparr>]\<rparr>"

text \<open>A snake at the left edge, turned left, with 30 points against a high score of 20.\<close>

definition wallExample :: Game where
  "wallExample =
     (initialGame (Some 20) None)
       \<lparr>gameState := playing, snake := [\<lparr>x = 0, y = 10\<rparr>, \<lparr>x = 1, y = 10\<rparr>],
        direction := LEFT, nextDirection := LEFT, score := 30, scoreRef := 30\<rparr>"

text \<open>
  The page loaded with a stored speed of 30 ms, and the session that the start command
  opens from it with the draws \<open>rndC\<close>.
\<close>

definition slowMenu :: Game where
  "slowMenu = afterRender (initialGame None (Some 30))"

definition slowStart :: Game where
  "slowStart = slowMenu\<lparr>gameState := playing, food := \<lparr>x = 11, y = 10\<rparr>\<rparr>"

text \<open>A game-over screen showing a feedback text, with a stored speed of 120 ms.\<close>

definition gameoverExample :: Game where
  "gameoverExample =
     (initialGame (Some 40) (Some 120))
       \<lparr>gameState := gameover, snake := [\<lparr>x = 19, y = 3\<rparr>, \<lparr>x = 18, y = 3\<rparr>],
        score := 10, scoreRef := 10, aiTip := ''Stay central'', aiFeedback := ''Nice run''\<rparr>"

text \<open>A request for a theme name that the completion service answers.\<close>

definition themeEnv :: AiEnv where
  "themeEnv =
     \<lparr>requestJson = Some \<lparr>body_type = JString ''theme'', body_data = None\<rparr>,
      zaiCreate = True,
      completion = (\<lambda>prompt maxTokens. Resolved (Some '' Solar Flare '')),
      fallbackDraw = 0\<rparr>"

text \<open>A request of an unknown type.\<close>

definition bogusEnv :: AiEnv where
  "bogusEnv =
     \<lparr>requestJson = Some \<lparr>body_type = JString ''hint'', body_data = None\<rparr>,
      zaiCreate = True,
      completion = (\<lambda>prompt maxTokens. Resolved (Some ''Go on'')),
      fallbackDraw = 0\<rparr>"

section \<open>Properties\<close>

subsection \<open>Positions and food placement\<close>

lemma Position_eq_iff: "(p = (q::Position)) = (x p = x q \<and> y p = y q)"
  by (cases p, cases q) auto

lemma occupies_iff: "occupies currentSnake p = (p \<in> set currentSnake)"
  by (induction currentSnake) (auto simp: occupies_def Position_eq_iff)

lemma sample_shift: "sample rnd (Suc (Suc n)) k = sample rnd n (Suc k)"
  by (simp add: sample_def)

lemma generateFood_step:
  "generateFood rnd n currentSnake =
     (if occupies currentSnake (sample rnd n 0) then generateFood rnd (n + 2) currentSnake
      else Some (sample rnd n 0, n + 2))"
  by (subst generateFood.simps) (simp add: sample_def Let_def)

lemma generateFood_Some_sample:
  assumes "generateFood rnd n currentSnake = Some r"
  shows "\<exists>k. r = (sample rnd n k, n + 2 * Suc k) \<and> \<not> occupies currentSnake (sample rnd n k)"
proof (rule generateFood.raw_induct
    [where P = "\<lambda>rnd n cs r. \<exists>k. r = (sample rnd n k, n + 2 * Suc k) \<and> \<not> occupies cs (sample rnd n k)",
      OF _ assms], goal_cases)
  case (1 gf rnd n cs r)
  show ?case
  proof (cases "occupies cs (sample rnd n 0)")
    case True
    with 1(2) have "gf rnd (n + 2) cs = Some r"
      by (simp add: sample_def Let_def)
    from 1(1)[OF this] obtain k where
      "r = (sample rnd (n + 2) k, n + 2 + 2 * Suc k)" "\<not> occupies cs (sample rnd (n + 2) k)"
      by blast
    then have "r = (sample rnd n (Suc k), n + 2 * Suc (Suc k)) \<and> \<not> occupies cs (sample rnd n (Suc k))"
      by (simp add: sample_shift)
    then show ?thesis by blast
  next
    case False
    with 1(2) have "r = (sample rnd n 0, n + 2)"
      by (auto simp: sample_def Let_def)
    with False show ?thesis by auto
  qed
qed

lemma generateFood_returns:
  "\<not> occupies currentSnake (sample rnd n k) \<Longrightarrow> \<exists>r. generateFood rnd n currentSnake = Some r"
proof (induction k arbitrary: n)
  case 0
  then show ?case by (simp add: generateFood_step)
next
  case (Suc k)
  show ?case
  proof (cases "occupies currentSnake (sample rnd n 0)")
    case True
    from Suc.prems have "\<not> occupies currentSnake (sample rnd (n + 2) k)"
      by (simp add: sample_shift)
    from Suc.IH[OF this] show ?thesis using True by (simp add: generateFood_step)
  next
    case False
    then show ?thesis by (simp add: generateFood_step)
  qed
qed

lemma generateFood_loops:
  "(\<forall>k. occupies currentSnake (sample rnd n k)) \<Longrightarrow> generateFood rnd n currentSnake = None"
  using generateFood_Some_sample[of rnd n currentSnake] by (cases "generateFood rnd n currentSnake") auto

lemma inGrid_sample:
  assumes "\<forall>i. 0 \<le> rnd i \<and> rnd i < 1"
  shows "inGrid (sample rnd n k)"
proof -
  have fl: "0 \<le> \<lfloor>r * 20\<rfloor> \<and> \<lfloor>r * 20\<rfloor> < 20" if "0 \<le> r" "r < 1" for r :: real
    using that by (simp add: floor_less_iff)
  show ?thesis
    using assms fl[of "rnd (n + 2 * k)"] fl[of "rnd (n + 2 * k + 1)"]
    by (simp add: inGrid_def sample_def GRID_SIZE_def)
qed

lemma grid_card: "card {p. inGrid p} = 400"
proof -
  have eq: "{p. inGrid p} = (\<lambda>c. \<lparr>x = fst c, y = snd c\<rparr>) ` ({0..<20} \<times> {0..<20})"
  proof (intro set_eqI iffI)
    fix p assume "p \<in> {p. inGrid p}"
    then have "(x p, y p) \<in> {0..<20} \<times> {0..<20}" by (simp add: inGrid_def GRID_SIZE_def)
    moreover have "p = \<lparr>x = fst (x p, y p), y = snd (x p, y p)\<rparr>" by simp
    ultimately show "p \<in> (\<lambda>c. \<lparr>x = fst c, y = snd c\<rparr>) ` ({0..<20} \<times> {0..<20})" by blast
  next
    fix p assume "p \<in> (\<lambda>c. \<lparr>x = fst c, y = snd c\<rparr>) ` ({0..<20} \<times> {0..<20})"
    then show "p \<in> {p. inGrid p}" by (auto simp: inGrid_def GRID_SIZE_def)
  qed
  have inj: "inj_on (\<lambda>c::int \<times> int. \<lparr>x = fst c, y = snd c\<rparr>) ({0..<20} \<times> {0..<20})"
    by (auto simp: inj_on_def)
  show ?thesis
    unfolding eq by (simp add: card_image[OF inj])
qed

lemma free_cell_exists:
  assumes "card (set currentSnake) < nat (GRID_SIZE * GRID_SIZE)"
  shows "\<exists>p. inGrid p \<and> \<not> occupies currentSnake p"
proof (rule ccontr)
  assume "\<not> (\<exists>p. inGrid p \<and> \<not> occupies currentSnake p)"
  then have "{p. inGrid p} \<subseteq> set currentSnake" by (auto simp: occupies_iff)
  then have "card {p. inGrid p} \<le> card (set currentSnake)" by (simp add: card_mono)
  with assms show False by (simp add: grid_card GRID_SIZE_def)
qed

subsection \<open>The three outcomes of a tick\<close>

lemma tick_collided:
  "collided g \<Longrightarrow>
     tick rnd n g =
       Some (triggerGameOver (int (length (snake g))) (scoreRef g) (g\<lparr>direction := nextDirection g\<rparr>), n)"
  by (auto simp: collided_def tick_def Let_def split: list.splits)

lemma tick_eat:
  "ateFood g \<Longrightarrow>
     tick rnd n g =
       (case generateFood rnd n (moveHead (nextDirection g) (hd (snake g)) # snake g) of
          None \<Rightarrow> None
        | Some (newFood, n') \<Rightarrow>
            Some (g\<lparr>direction := nextDirection g,
                    snake := moveHead (nextDirection g) (hd (snake g)) # snake g,
                    score := score g + 10,
                    food := newFood,
                    speed := max MIN_SPEED (speed g - SPEED_INCREMENT)\<rparr>, n'))"
  by (auto simp: ateFood_def tick_def Let_def split: list.splits option.splits)

lemma tick_move:
  "\<not> collided g \<Longrightarrow> \<not> ateFood g \<Longrightarrow>
     tick rnd n g =
       Some (g\<lparr>direction := nextDirection g,
               snake := (case snake g of [] \<Rightarrow> []
                         | segment0 # _ \<Rightarrow> butlast (moveHead (nextDirection g) segment0 # snake g))\<rparr>, n)"
  by (auto simp: collided_def ateFood_def tick_def Let_def split: list.splits)

subsection \<open>Length of the snake\<close>

text \<open>
  C1. A tick that returns without a collision leaves the snake one segment longer when
  the new head is on the food (\<open>ateFood\<close>), and as long as it was otherwise.
\<close>

theorem tick_length:
  assumes "tick rnd n g = Some (g', n')" and "\<not> collided g"
  shows "length (snake g') = length (snake g) + (if ateFood g then 1 else 0)"
proof (cases "ateFood g")
  case True
  with assms(1) show ?thesis
    by (auto simp: tick_eat split: option.splits)
next
  case False
  with assms show ?thesis
    by (auto simp: tick_move split: list.splits)
qed

theorem tick_length_witness:
  "\<not> collided playingExample \<and> ateFood playingExample \<and>
   map_option (length \<circ> snake \<circ> fst) (tick rndC 0 playingExample) = Some (length (snake playingExample) + 1)"
proof -
  have c: "\<not> collided playingExample"
    by (simp add: collided_def playingExample_def initialGame_def moveHead_def hitsWall_def
        occupies_def GRID_SIZE_def)
  have a: "ateFood playingExample"
    by (simp add: ateFood_def playingExample_def initialGame_def moveHead_def hitsWall_def
        occupies_def GRID_SIZE_def)
  have "\<exists>g'. tick rndC 0 playingExample = Some (g', 4)"
    by (simp add: tick_def playingExample_def initialGame_def moveHead_def hitsWall_def
        occupies_def GRID_SIZE_def generateFood.simps rndC_def)
  then obtain g' where t: "tick rndC 0 playingExample = Some (g', 4)" ..
  from tick_length[OF t c] a c t show ?thesis by simp
qed

subsection \<open>Collisions\<close>

text \<open>
  C2. The self test compares the new head with the body as it is before the move: a new
  head on any segment, the tail cell included, ends the game and leaves the snake as it was.
\<close>

theorem tick_self_collision:
  assumes "snake g = segment0 # rest"
      and "head = moveHead (nextDirection g) segment0"
      and "head \<in> set (butlast (snake g)) \<or> head = last (snake g)"
  shows "\<exists>g'. tick rnd n g = Some (g', n) \<and> gameState g' = gameover \<and> snake g' = snake g"
proof -
  from assms(1) have "snake g \<noteq> []"
    by simp
  with assms(3) have "head \<in> set (snake g)"
    using in_set_butlastD[of head "snake g"] last_in_set[of "snake g"] by blast
  with assms(1,2) have "collided g"
    by (simp add: collided_def occupies_iff)
  then show ?thesis
    by (simp add: tick_collided triggerGameOver_def)
qed

theorem tick_self_collision_witness:
  "moveHead (nextDirection loopExample) (hd (snake loopExample)) = last (snake loopExample) \<and>
   \<not> hitsWall (last (snake loopExample)) \<and>
   map_option (gameState \<circ> fst) (tick rndC 0 loopExample) = Some gameover \<and>
   map_option (snake \<circ> fst) (tick rndC 0 loopExample) = Some (snake loopExample)"
proof -
  have s: "snake loopExample = \<lparr>x = 10, y = 10\<rparr> # [\<lparr>x = 10, y = 11\<rparr>, \<lparr>x = 11, y = 11\<rparr>, \<lparr>x = 11, y = 10\<rparr>]"
    by (simp add: loopExample_def)
  have h: "\<lparr>x = 11, y = 10\<rparr> = moveHead (nextDirection loopExample) \<lparr>x = 10, y = 10\<rparr>"
    by (simp add: loopExample_def initialGame_def moveHead_def)
  have t: "\<lparr>x = 11, y = 10\<rparr> \<in> set (butlast (snake loopExample)) \<or> \<lparr>x = 11, y = 10\<rparr> = last (snake loopExample)"
    by (simp add: loopExample_def)
  from tick_self_collision[OF s h t, of rndC 0] obtain g' where
    "tick rndC 0 loopExample = Some (g', 0)" "gameState g' = gameover" "snake g' = snake loopExample"
    by blast
  moreover have "moveHead (nextDirection loopExample) (hd (snake loopExample)) = last (snake loopExample)"
    by (simp add: loopExample_def initialGame_def moveHead_def)
  moreover have "\<not> hitsWall (last (snake loopExample))"
    by (simp add: loopExample_def hitsWall_def GRID_SIZE_def)
  ultimately show ?thesis by simp
qed

text \<open>
  C3. A new head outside the grid on either axis ends the game; the snake and the score
  stay as they were before the tick.
\<close>

theorem tick_wall_collision:
  assumes "snake g = segment0 # rest"
      and "hitsWall (moveHead (nextDirection g) segment0)"
  shows "\<exists>g'. tick rnd n g = Some (g', n) \<and> gameState g' = gameover \<and> snake g' = snake g \<and>
           score g' = score g"
proof -
  from assms have "collided g"
    by (simp add: collided_def)
  then show ?thesis
    by (simp add: tick_collided triggerGameOver_def)
qed

theorem tick_wall_collision_witness:
  "x (moveHead (nextDirection wallExample) (hd (snake wallExample))) = - 1 \<and>
   map_option (gameState \<circ> fst) (tick rndC 0 wallExample) = Some gameover \<and>
   map_option (snake \<circ> fst) (tick rndC 0 wallExample) = Some [\<lparr>x = 0, y = 10\<rparr>, \<lparr>x = 1, y = 10\<rparr>] \<and>
   map_option (score \<circ> fst) (tick rndC 0 wallExample) = Some 30"
proof -
  have s: "snake wallExample = \<lparr>x = 0, y = 10\<rparr> # [\<lparr>x = 1, y = 10\<rparr>]"
    by (simp add: wallExample_def)
  have w: "hitsWall (moveHead (nextDirection wallExample) \<lparr>x = 0, y = 10\<rparr>)"
    by (simp add: wallExample_def hitsWall_def moveHead_def GRID_SIZE_def)
  from tick_wall_collision[OF s w, of rndC 0] obtain g' where
    "tick rndC 0 wallExample = Some (g', 0)" "gameState g' = gameover"
    "snake g' = snake wallExample" "score g' = score wallExample"
    by blast
  moreover have "x (moveHead (nextDirection wallExample) (hd (snake wallExample))) = - 1"
    by (simp add: wallExample_def moveHead_def)
  ultimately show ?thesis by (simp add: wallExample_def)
qed

subsection \<open>High score\<close>

text \<open>
  C7. Game over stores the final score as the high score, in the state and in
  \<^verbatim>\<open>localStorage\<close>, exactly when it is greater than the previous high score, and keeps the
  previous one otherwise; a colliding tick does so with the score held in \<open>scoreRef\<close>.
\<close>

theorem triggerGameOver_highScore:
  "gameState (triggerGameOver snakeLength finalScore g) = gameover \<and>
   highScore (triggerGameOver snakeLength finalScore g) =
     (if finalScore > highScore g then finalScore else highScore g) \<and>
   snake_highScore (triggerGameOver snakeLength finalScore g) =
     (if finalScore > highScore g then Some finalScore else snake_highScore g) \<and>
   (collided g \<longrightarrow>
      map_option (highScore \<circ> fst) (tick rnd n g) =
        Some (if scoreRef g > highScore g then scoreRef g else highScore g))"
  by (simp add: triggerGameOver_def tick_collided)

theorem triggerGameOver_highScore_witness:
  "collided wallExample \<and> highScore wallExample = 20 \<and> scoreRef wallExample = 30 \<and>
   map_option (highScore \<circ> fst) (tick rndC 0 wallExample) = Some 30 \<and>
   highScore (triggerGameOver 2 20 wallExample) = 20 \<and>
   highScore (triggerGameOver 2 10 wallExample) = 20"
proof -
  have c: "collided wallExample"
    by (simp add: collided_def wallExample_def hitsWall_def moveHead_def GRID_SIZE_def)
  have v: "highScore wallExample = 20" "scoreRef wallExample = 30"
    by (simp_all add: wallExample_def initialGame_def)
  from triggerGameOver_highScore[of 2 20 wallExample rndC 0]
       triggerGameOver_highScore[of 2 10 wallExample rndC 0] c v
  show ?thesis by simp
qed

subsection \<open>Where the food lands\<close>

lemma tick_eat_food:
  assumes "ateFood g" and "tick rnd n g = Some (g', n')"
  shows "generateFood rnd n (snake g') = Some (food g', n')"
  using assms by (auto simp: tick_eat split: option.splits)

text \<open>
  C4. With draws in the unit interval and fewer occupied cells than the grid has, every
  cell that food placement returns lies in the grid and on no occupied cell; the loop
  returns as soon as a round draws a free cell, and a free cell exists. In particular the
  food that a tick places after eating is not on the grown snake.
\<close>

theorem generateFood_unoccupied:
  assumes draws: "\<forall>i. 0 \<le> rnd i \<and> rnd i < 1"
      and room: "card (set currentSnake) < nat (GRID_SIZE * GRID_SIZE)"
  shows "(\<forall>newFood n'. generateFood rnd n currentSnake = Some (newFood, n') \<longrightarrow>
            inGrid newFood \<and> \<not> occupies currentSnake newFood \<and> newFood \<notin> set currentSnake) \<and>
         ((\<exists>k. \<not> occupies currentSnake (sample rnd n k)) \<longrightarrow>
            generateFood rnd n currentSnake \<noteq> None) \<and>
         (\<exists>p. inGrid p \<and> \<not> occupies currentSnake p) \<and>
         (\<forall>g g' n'. ateFood g \<longrightarrow> tick rnd n g = Some (g', n') \<longrightarrow>
            inGrid (food g') \<and> \<not> occupies (snake g') (food g'))"
proof -
  have placed: "inGrid newFood \<and> \<not> occupies s newFood \<and> newFood \<notin> set s"
    if "generateFood rnd m s = Some (newFood, n')" for m s newFood n'
  proof -
    from generateFood_Some_sample[OF that] obtain k where
      "newFood = sample rnd m k" "\<not> occupies s (sample rnd m k)"
      by auto
    with inGrid_sample[OF draws, of m k] show ?thesis
      by (simp add: occupies_iff)
  qed
  have returns: "generateFood rnd n currentSnake \<noteq> None"
    if "\<exists>k. \<not> occupies currentSnake (sample rnd n k)"
    using that generateFood_returns[of currentSnake rnd n] by auto
  have eaten: "inGrid (food g') \<and> \<not> occupies (snake g') (food g')"
    if "ateFood g" "tick rnd n g = Some (g', n')" for g g' n'
    using placed[OF tick_eat_food[OF that]] by simp
  from placed returns eaten free_cell_exists[OF room] show ?thesis
    by blast
qed

theorem generateFood_unoccupied_witness:
  "generateFood rndC 0 [\<lparr>x = 11, y = 10\<rparr>, \<lparr>x = 10, y = 10\<rparr>] = Some (\<lparr>x = 5, y = 5\<rparr>, 4) \<and>
   inGrid \<lparr>x = 5, y = 5\<rparr> \<and>
   \<lparr>x = 5, y = 5\<rparr> \<notin> set [\<lparr>x = 11, y = 10\<rparr>, \<lparr>x = 10, y = 10\<rparr>]"
proof -
  have d: "\<forall>i. 0 \<le> rndC i \<and> rndC i < 1"
    by (simp add: rndC_def)
  have r: "card (set [\<lparr>x = 11, y = 10\<rparr>, \<lparr>x = 10, y = 10\<rparr>]) < nat (GRID_SIZE * GRID_SIZE)"
    by (simp add: GRID_SIZE_def)
  have e: "generateFood rndC 0 [\<lparr>x = 11, y = 10\<rparr>, \<lparr>x = 10, y = 10\<rparr>] = Some (\<lparr>x = 5, y = 5\<rparr>, 4)"
    by (simp add: generateFood.simps rndC_def GRID_SIZE_def occupies_def)
  from generateFood_unoccupied[OF d r, of 0] e show ?thesis
    by blast
qed

subsection \<open>Starting a session\<close>

lemma startGame_Some:
  assumes "startGame rnd n g = Some (g', n')"
  shows "generateFood rnd n [\<lparr>x = 10, y = 10\<rparr>] = Some (food g', n') \<and>
         g' = g\<lparr>snake := [\<lparr>x = 10, y = 10\<rparr>], food := food g', direction := RIGHT,
                nextDirection := RIGHT, score := 0,
                speed := (case snake_speed g of Some savedSpeed \<Rightarrow> savedSpeed | None \<Rightarrow> INITIAL_SPEED),
                aiTip := [], aiFeedback := [], gameState := playing\<rparr>"
proof (cases "generateFood rnd n [\<lparr>x = 10, y = 10\<rparr>]")
  case None
  with assms show ?thesis
    by (simp add: startGame_def)
next
  case (Some r)
  with assms show ?thesis
    by (cases r) (auto simp: startGame_def)
qed

lemma startGame_returns:
  assumes "sample rnd n k \<noteq> \<lparr>x = 10, y = 10\<rparr>"
  shows "startGame rnd n g \<noteq> None"
proof -
  from assms have "\<not> occupies [\<lparr>x = 10, y = 10\<rparr>] (sample rnd n k)"
    by (simp add: occupies_iff)
  from generateFood_returns[OF this] show ?thesis
    by (auto simp: startGame_def)
qed

text \<open>
  C8. The start command, from the menu or from game over, by key or by button, resets
  the snake to the single cell (10,10), both directions to RIGHT and the score to 0, sets
  the speed to the stored preference (150 ms when there is none), places food on a grid
  cell off the snake and enters the playing state. It returns as soon as a round of the
  placement loop draws a cell other than (10,10).
\<close>

theorem startGame_reset:
  assumes draws: "\<forall>i. 0 \<le> rnd i \<and> rnd i < 1"
  shows "(\<forall>g' n'. startGame rnd n g = Some (g', n') \<longrightarrow>
            snake g' = [\<lparr>x = 10, y = 10\<rparr>] \<and> direction g' = RIGHT \<and> nextDirection g' = RIGHT \<and>
            score g' = 0 \<and>
            speed g' = (case snake_speed g of Some savedSpeed \<Rightarrow> savedSpeed | None \<Rightarrow> 150) \<and>
            gameState g' = playing \<and> inGrid (food g') \<and> \<not> occupies (snake g') (food g')) \<and>
         ((\<exists>k. sample rnd n k \<noteq> \<lparr>x = 10, y = 10\<rparr>) \<longrightarrow> startGame rnd n g \<noteq> None) \<and>
         (gameState g = menu \<or> gameState g = gameover \<longrightarrow>
            handleKeyDown rnd n ''Enter'' g = startGame rnd n g \<and>
            handleKeyDown rnd n '' '' g = startGame rnd n g)"
proof -
  have reset: "snake g' = [\<lparr>x = 10, y = 10\<rparr>] \<and> direction g' = RIGHT \<and> nextDirection g' = RIGHT \<and>
      score g' = 0 \<and>
      speed g' = (case snake_speed g of Some savedSpeed \<Rightarrow> savedSpeed | None \<Rightarrow> 150) \<and>
      gameState g' = playing \<and> inGrid (food g') \<and> \<not> occupies (snake g') (food g')"
    if s: "startGame rnd n g = Some (g', n')" for g' n'
  proof -
    note st = startGame_Some[OF s]
    from st obtain k where
      k: "food g' = sample rnd n k" "\<not> occupies [\<lparr>x = 10, y = 10\<rparr>] (sample rnd n k)"
      using generateFood_Some_sample[of rnd n "[\<lparr>x = 10, y = 10\<rparr>]" "(food g', n')"] by auto
    have f: "snake g' = [\<lparr>x = 10, y = 10\<rparr>]" "direction g' = RIGHT" "nextDirection g' = RIGHT"
      "score g' = 0" "gameState g' = playing"
      "speed g' = (case snake_speed g of Some savedSpeed \<Rightarrow> savedSpeed | None \<Rightarrow> INITIAL_SPEED)"
      by (subst conjunct2[OF st], simp)+
    from f k inGrid_sample[OF draws, of n k] show ?thesis
      by (simp add: INITIAL_SPEED_def split: option.splits)
  qed
  have keys: "handleKeyDown rnd n ''Enter'' g = startGame rnd n g \<and>
      handleKeyDown rnd n '' '' g = startGame rnd n g"
    if "gameState g = menu \<or> gameState g = gameover"
    using that by (auto simp: handleKeyDown_def)
  from reset keys startGame_returns[of rnd n _ g] show ?thesis
    by blast
qed

theorem startGame_reset_witness:
  "gameState gameoverExample = gameover \<and> snake_speed gameoverExample = Some 120 \<and>
   map_option (snake \<circ> fst) (handleKeyDown rndC 0 ''Enter'' gameoverExample) = Some [\<lparr>x = 10, y = 10\<rparr>] \<and>
   map_option (food \<circ> fst) (handleKeyDown rndC 0 ''Enter'' gameoverExample) = Some \<lparr>x = 11, y = 10\<rparr> \<and>
   map_option (speed \<circ> fst) (handleKeyDown rndC 0 ''Enter'' gameoverExample) = Some 120 \<and>
   map_option (score \<circ> fst) (handleKeyDown rndC 0 ''Enter'' gameoverExample) = Some 0 \<and>
   map_option (gameState \<circ> fst) (handleKeyDown rndC 0 ''Enter'' gameoverExample) = Some playing \<and>
   map_option (speed \<circ> fst) (startGame rndC 0 (initialGame None None)) = Some 150"
proof -
  have d: "\<forall>i. 0 \<le> rndC i \<and> rndC i < 1"
    by (simp add: rndC_def)
  have st: "gameState gameoverExample = gameover" "snake_speed gameoverExample = Some 120"
    by (simp_all add: gameoverExample_def initialGame_def)
  have e: "generateFood rndC 0 [\<lparr>x = 10, y = 10\<rparr>] = Some (\<lparr>x = 11, y = 10\<rparr>, 2)"
    by (simp add: generateFood.simps rndC_def GRID_SIZE_def occupies_def)
  then obtain g1 where g1: "startGame rndC 0 gameoverExample = Some (g1, 2)"
    by (simp add: startGame_def)
  from e obtain g2 where g2: "startGame rndC 0 (initialGame None None) = Some (g2, 2)"
    by (simp add: startGame_def)
  have f1: "food g1 = \<lparr>x = 11, y = 10\<rparr>"
    using startGame_Some[OF g1] e by simp
  have i: "snake_speed (initialGame None None) = None"
    by (simp add: initialGame_def)
  from startGame_reset[OF d, of 0 gameoverExample] startGame_reset[OF d, of 0 "initialGame None None"]
       st g1 g2 f1 i
  show ?thesis by simp
qed

text \<open>
  C10. The start command also empties the AI tip and the AI feedback text.
\<close>

theorem startGame_clears_ai:
  "(\<forall>g' n'. startGame rnd n g = Some (g', n') \<longrightarrow> aiTip g' = [] \<and> aiFeedback g' = []) \<and>
   ((\<exists>k. sample rnd n k \<noteq> \<lparr>x = 10, y = 10\<rparr>) \<longrightarrow> startGame rnd n g \<noteq> None)"
proof -
  have "aiTip g' = [] \<and> aiFeedback g' = []" if s: "startGame rnd n g = Some (g', n')" for g' n'
    by (subst (1 2) conjunct2[OF startGame_Some[OF s]], simp)
  with startGame_returns[of rnd n _ g] show ?thesis
    by blast
qed

theorem startGame_clears_ai_witness:
  "aiTip gameoverExample = ''Stay central'' \<and> aiFeedback gameoverExample = ''Nice run'' \<and>
   sample rndC 0 0 \<noteq> \<lparr>x = 10, y = 10\<rparr> \<and>
   map_option (aiTip \<circ> fst) (startGame rndC 0 gameoverExample) = Some [] \<and>
   map_option (aiFeedback \<circ> fst) (startGame rndC 0 gameoverExample) = Some []"
proof -
  have a: "aiTip gameoverExample = ''Stay central''" "aiFeedback gameoverExample = ''Nice run''"
    by (simp_all add: gameoverExample_def)
  have k: "sample rndC 0 0 \<noteq> \<lparr>x = 10, y = 10\<rparr>"
    by (simp add: sample_def rndC_def GRID_SIZE_def)
  note c = startGame_clears_ai[of rndC 0 gameoverExample]
  from c k obtain g' n' where s: "startGame rndC 0 gameoverExample = Some (g', n')"
    by (cases "startGame rndC 0 gameoverExample") auto
  with c a k show ?thesis by simp
qed

subsection \<open>The direction filter\<close>

lemma directionKeys_cases:
  "key \<in> set (directionKeys d) \<Longrightarrow>
     (d = UP \<and> (key = ''ArrowUp'' \<or> key = ''w'' \<or> key = ''W'')) \<or>
     (d = DOWN \<and> (key = ''ArrowDown'' \<or> key = ''s'' \<or> key = ''S'')) \<or>
     (d = LEFT \<and> (key = ''ArrowLeft'' \<or> key = ''a'' \<or> key = ''A'')) \<or>
     (d = RIGHT \<and> (key = ''ArrowRight'' \<or> key = ''d'' \<or> key = ''D''))"
  by (cases d) (auto simp: directionKeys_def)

lemma handleKeyDown_playing:
  assumes "gameState g = playing" and "key \<in> set (directionKeys d)"
  shows "handleKeyDown rnd n key g = Some (g\<lparr>nextDirection := acceptDirection d g\<rparr>, n)"
  using directionKeys_cases[OF assms(2)] assms(1)
  by (elim disjE conjE; cases "direction g";
      simp add: handleKeyDown_def acceptDirection_def opposites_def)

lemma handleDirectionButton_playing:
  assumes "gameState g = playing"
  shows "handleDirectionButton d g = g\<lparr>nextDirection := acceptDirection d g\<rparr>"
  using assms
  by (cases d; cases "direction g") (auto simp: handleDirectionButton_def acceptDirection_def opposites_def)

lemma handleTouchEnd_swipe:
  assumes "touchStartRef g = Some start"
      and "swipeRequest (fst touch - fst start) (snd touch - snd start) = Some d"
  shows "handleTouchEnd touch g = g\<lparr>nextDirection := acceptDirection d g, touchStartRef := None\<rparr>"
  using assms
  by (cases "direction g")
     (auto simp: handleTouchEnd_def swipeRequest_def acceptDirection_def opposites_def Let_def
           split: if_splits)

text \<open>
  C5. While the game is playing, each of the three adapters (a direction key, a swipe
  longer than \<^verbatim>\<open>minSwipe\<close> along its dominant axis, an on-screen button) passes the
  requested direction through the same filter, for each of the four directions: a request
  that is the reverse of \<open>direction\<close> leaves \<open>nextDirection\<close> as it is, and any other
  request becomes \<open>nextDirection\<close>.
\<close>

theorem direction_filter:
  assumes "gameState g = playing"
  shows "(key \<in> set (directionKeys d) \<longrightarrow>
            handleKeyDown rnd n key g = Some (g\<lparr>nextDirection := acceptDirection d g\<rparr>, n)) \<and>
         (touchStartRef g = Some start \<longrightarrow>
            swipeRequest (fst touch - fst start) (snd touch - snd start) = Some d \<longrightarrow>
            handleTouchEnd touch g = g\<lparr>nextDirection := acceptDirection d g, touchStartRef := None\<rparr>) \<and>
         handleDirectionButton d g = g\<lparr>nextDirection := acceptDirection d g\<rparr> \<and>
         acceptDirection d g = (if d = opposites (direction g) then nextDirection g else d)"
  using assms handleKeyDown_playing[of g key d rnd n] handleDirectionButton_playing[of g d]
    handleTouchEnd_swipe[of g start touch d]
  by (simp add: acceptDirection_def)

theorem direction_filter_witness:
  "gameState playingExample = playing \<and> direction playingExample = RIGHT \<and>
   map_option (nextDirection \<circ> fst) (handleKeyDown rndC 0 ''a'' playingExample) = Some RIGHT \<and>
   map_option (nextDirection \<circ> fst) (handleKeyDown rndC 0 ''ArrowUp'' playingExample) = Some UP \<and>
   nextDirection (handleDirectionButton LEFT playingExample) = RIGHT \<and>
   nextDirection (handleDirectionButton DOWN playingExample) = DOWN \<and>
   nextDirection (handleTouchEnd (60, 100) (handleTouchStart (100, 90) playingExample)) = RIGHT \<and>
   nextDirection (handleTouchEnd (100, 50) (handleTouchStart (100, 90) playingExample)) = UP"
proof -
  let ?t = "handleTouchStart (100, 90) playingExample"
  have p: "gameState playingExample = playing" "direction playingExample = RIGHT"
    "nextDirection playingExample = RIGHT"
    by (simp_all add: playingExample_def initialGame_def)
  have k: "''a'' \<in> set (directionKeys LEFT)" "''ArrowUp'' \<in> set (directionKeys UP)"
    by (simp_all add: directionKeys_def)
  have t: "touchStartRef ?t = Some (100, 90)" "direction ?t = RIGHT" "nextDirection ?t = RIGHT"
    "gameState ?t = playing"
    by (simp_all add: handleTouchStart_def playingExample_def initialGame_def)
  have s: "swipeRequest (fst (60::real, 100::real) - fst (100::real, 90::real))
             (snd (60::real, 100::real) - snd (100::real, 90::real)) = Some LEFT"
    "swipeRequest (fst (100::real, 50::real) - fst (100::real, 90::real))
             (snd (100::real, 50::real) - snd (100::real, 90::real)) = Some UP"
    by (simp_all add: swipeRequest_def)
  have a: "acceptDirection LEFT playingExample = RIGHT" "acceptDirection UP playingExample = UP"
    "acceptDirection DOWN playingExample = DOWN"
    "acceptDirection LEFT ?t = RIGHT" "acceptDirection UP ?t = UP"
    by (simp_all add: acceptDirection_def opposites_def p t)
  have w1: "handleKeyDown rndC 0 ''a'' playingExample =
      Some (playingExample\<lparr>nextDirection := acceptDirection LEFT playingExample\<rparr>, 0)"
    using direction_filter[OF p(1), of "''a''" LEFT rndC 0] k(1) by blast
  have w2: "handleKeyDown rndC 0 ''ArrowUp'' playingExample =
      Some (playingExample\<lparr>nextDirection := acceptDirection UP playingExample\<rparr>, 0)"
    using direction_filter[OF p(1), of "''ArrowUp''" UP rndC 0] k(2) by blast
  have w3: "handleDirectionButton LEFT playingExample =
      playingExample\<lparr>nextDirection := acceptDirection LEFT playingExample\<rparr>"
    using direction_filter[OF p(1), of _ LEFT] by blast
  have w4: "handleDirectionButton DOWN playingExample =
      playingExample\<lparr>nextDirection := acceptDirection DOWN playingExample\<rparr>"
    using direction_filter[OF p(1), of _ DOWN] by blast
  have w5: "handleTouchEnd (60, 100) ?t = ?t\<lparr>nextDirection := acceptDirection LEFT ?t, touchStartRef := None\<rparr>"
    using direction_filter[OF t(4), of _ LEFT _ _ "(100, 90)" "(60, 100)"] t(1) s(1) by blast
  have w6: "handleTouchEnd (100, 50) ?t = ?t\<lparr>nextDirection := acceptDirection UP ?t, touchStartRef := None\<rparr>"
    using direction_filter[OF t(4), of _ UP _ _ "(100, 90)" "(100, 50)"] t(1) s(2) by blast
  show ?thesis
    by (simp add: w1 w2 w3 w4 w5 w6 a p)
qed

subsection \<open>Speed\<close>

lemma handleKeyDown_speed:
  assumes "gameState g = playing \<or> gameState g = paused"
  shows "map_option (speed \<circ> fst) (handleKeyDown rnd n key g) = Some (speed g)"
proof -
  have pick: "map_option (speed \<circ> fst) (Some (if c then a else b, m)) = Some (speed g)"
    if "speed a = speed g" "speed b = speed g" for c a b and m :: nat
    using that by simp
  have br: "map_option (speed \<circ> fst) (if c then u else v) = Some (speed g)"
    if "map_option (speed \<circ> fst) u = Some (speed g)" "map_option (speed \<circ> fst) v = Some (speed g)"
    for c and u v :: "(Game \<times> nat) option"
    using that by simp
  from assms show ?thesis
    unfolding handleKeyDown_def
    by (elim disjE; simp only: if_True if_False GameState.distinct simp_thms; intro br pick; simp)
qed

lemma tick_speed_cases:
  assumes "tick rnd n g = Some (g', n')"
  shows "speed g' = (if ateFood g then max MIN_SPEED (speed g - SPEED_INCREMENT) else speed g)"
proof (cases "collided g")
  case True
  then have "\<not> ateFood g"
    by (auto simp: collided_def ateFood_def Let_def split: list.splits)
  with True assms show ?thesis
    by (auto simp: tick_collided triggerGameOver_def)
next
  case False
  show ?thesis
  proof (cases "ateFood g")
    case True
    with assms show ?thesis
      by (auto simp: tick_eat split: option.splits)
  next
    case no: False
    with False assms show ?thesis
      by (auto simp: tick_move)
  qed
qed

text \<open>
  C6, as the code has it. A tick that eats sets the speed to the larger of \<open>MIN_SPEED\<close>
  (50) and the speed less \<open>SPEED_INCREMENT\<close> (5), so to at least \<open>MIN_SPEED\<close>; any other tick
  leaves it. From a speed of at least \<open>MIN_SPEED\<close> a tick never raises the speed and keeps
  it at least \<open>MIN_SPEED\<close>. The input handlers of a session do not touch the speed.
\<close>

theorem tick_speed:
  assumes "tick rnd n g = Some (g', n')"
  shows "speed g' = (if ateFood g then max MIN_SPEED (speed g - SPEED_INCREMENT) else speed g) \<and>
         SPEED_INCREMENT = 5 \<and> MIN_SPEED = 50 \<and>
         (ateFood g \<longrightarrow> MIN_SPEED \<le> speed g') \<and>
         (MIN_SPEED \<le> speed g \<longrightarrow> speed g' \<le> speed g \<and> MIN_SPEED \<le> speed g') \<and>
         speed (handleDirectionButton d g) = speed g \<and>
         speed (handleTouchEnd touch g) = speed g \<and>
         (gameState g = playing \<or> gameState g = paused \<longrightarrow>
            map_option (speed \<circ> fst) (handleKeyDown rnd n key g) = Some (speed g))"
proof -
  note s = tick_speed_cases[OF assms]
  have b: "speed (handleDirectionButton d g) = speed g"
    by (simp add: handleDirectionButton_def)
  have t: "speed (handleTouchEnd touch g) = speed g"
    by (simp add: handleTouchEnd_def Let_def split: option.splits)
  note k = handleKeyDown_speed[of g rnd n key]
  have m: "MIN_SPEED \<le> max MIN_SPEED (speed g - SPEED_INCREMENT)"
    "MIN_SPEED \<le> speed g \<Longrightarrow> max MIN_SPEED (speed g - SPEED_INCREMENT) \<le> speed g"
    by (simp_all add: SPEED_INCREMENT_def)
  have c: "SPEED_INCREMENT = 5" "MIN_SPEED = 50"
    by (simp_all add: SPEED_INCREMENT_def MIN_SPEED_def)
  from s b t k m c show ?thesis
    by presburger
qed

theorem tick_speed_witness:
  "ateFood playingExample \<and> speed playingExample = 150 \<and>
   map_option (speed \<circ> fst) (tick rndC 0 playingExample) = Some 145"
proof -
  have a: "ateFood playingExample"
    by (simp add: ateFood_def playingExample_def initialGame_def moveHead_def hitsWall_def
        occupies_def GRID_SIZE_def)
  have v: "speed playingExample = 150"
    by (simp add: playingExample_def initialGame_def INITIAL_SPEED_def)
  have "\<exists>g'. tick rndC 0 playingExample = Some (g', 4)"
    by (simp add: tick_def playingExample_def initialGame_def moveHead_def hitsWall_def
        occupies_def GRID_SIZE_def generateFood.simps rndC_def)
  then obtain g' where t: "tick rndC 0 playingExample = Some (g', 4)" ..
  from tick_speed[OF t, THEN conjunct1] a v t show ?thesis
    by (simp add: MIN_SPEED_def SPEED_INCREMENT_def)
qed

text \<open>
  C6 as stated fails for a session whose speed starts below \<open>MIN_SPEED\<close>: with 30 ms
  stored as the speed preference, the start command opens the session at 30 ms and the
  first food raises the speed to 50 ms.
\<close>

theorem tick_speed_counterexample:
  "startGame rndC 0 slowMenu = Some (slowStart, 2) \<and> gameState slowStart = playing \<and>
   speed slowStart = 30 \<and>
   map_option (speed \<circ> fst) (tick rndC 2 slowStart) = Some 50"
proof -
  have e: "generateFood rndC 0 [\<lparr>x = 10, y = 10\<rparr>] = Some (\<lparr>x = 11, y = 10\<rparr>, 2)"
    by (simp add: generateFood.simps rndC_def GRID_SIZE_def occupies_def)
  have s: "startGame rndC 0 slowMenu = Some (slowStart, 2)"
    by (simp add: startGame_def e slowStart_def slowMenu_def afterRender_def initialGame_def)
  have f: "generateFood rndC 2 [\<lparr>x = 11, y = 10\<rparr>, \<lparr>x = 10, y = 10\<rparr>] = Some (\<lparr>x = 5, y = 5\<rparr>, 4)"
    by (simp add: generateFood.simps rndC_def GRID_SIZE_def occupies_def)
  have t: "map_option (speed \<circ> fst) (tick rndC 2 slowStart) = Some 50"
    by (simp add: tick_def slowStart_def slowMenu_def afterRender_def initialGame_def moveHead_def
        hitsWall_def occupies_def GRID_SIZE_def f MIN_SPEED_def SPEED_INCREMENT_def)
  from s t show ?thesis
    by (simp add: slowStart_def slowMenu_def afterRender_def initialGame_def)
qed

subsection \<open>Request types of the AI route\<close>

text \<open>
  C9, as the code has it. A request whose type is none of \<^verbatim>\<open>tip\<close>, \<^verbatim>\<open>feedback\<close> and
  \<^verbatim>\<open>theme\<close> gets a response without a content string, and, once the SDK client has been
  created, that response has status 400.
\<close>

theorem POST_invalid_type:
  assumes "requestJson env = Some body"
      and "body_type body \<noteq> JString ''tip''"
      and "body_type body \<noteq> JString ''feedback''"
      and "body_type body \<noteq> JString ''theme''"
  shows "content (POST env) = None \<and>
         (zaiCreate env \<longrightarrow> status (POST env) = 400 \<and> isClientError (POST env))"
  using assms by (simp add: POST_def errorResponse_def isClientError_def Let_def)

theorem POST_invalid_type_witness:
  "status (POST bogusEnv) = 400 \<and> isClientError (POST bogusEnv) \<and> content (POST bogusEnv) = None"
proof -
  have b: "requestJson bogusEnv = Some \<lparr>body_type = JString ''hint'', body_data = None\<rparr>"
    "zaiCreate bogusEnv"
    by (simp_all add: bogusEnv_def)
  from POST_invalid_type[OF b(1)] b(2) show ?thesis
    by simp
qed

text \<open>
  C9 as stated fails for the third request type the route serves: a \<^verbatim>\<open>theme\<close> request is
  neither a tip nor a feedback request and is answered with status 200 and a content string.
\<close>

theorem POST_invalid_type_counterexample:
  "requestJson themeEnv = Some \<lparr>body_type = JString ''theme'', body_data = None\<rparr> \<and>
   JString ''theme'' \<noteq> JString ''tip'' \<and> JString ''theme'' \<noteq> JString ''feedback'' \<and>
   status (POST themeEnv) = 200 \<and> \<not> isClientError (POST themeEnv) \<and>
   content (POST themeEnv) = Some ''Solar Flare''"
  by (simp add: themeEnv_def POST_def respond_def isClientError_def trim_def isWhiteSpace_def)

end
